theory Spec2Isabelle
  imports Main
begin

section \<open>Levels, exceptions and the ways a call can end\<close>

text \<open>
  \<^verbatim>\<open>dbgh::EAssertLevel\<close>, the template argument of \<^verbatim>\<open>HandleAssert\<close> and the argument of
  \<^verbatim>\<open>IsActiveAssert\<close> in \<^verbatim>\<open>DBGHAssert.h\<close>.
\<close>

datatype EAssertLevel = Debug | Warning | Error | Fatal

text \<open>
  The exception objects the two macros can see. The macros name two types in their catch
  clauses: \<^verbatim>\<open>dbgh::CAssertException\<close> (caught by const reference) and
  \<^verbatim>\<open>dbgh::impl::CAssertHandler::SStartDebuggingException\<close> (caught by value). A clause for
  a class also matches every class publicly derived from it, so the objects of such
  classes are kept apart: one derived from \<^verbatim>\<open>CAssertException\<close> has the base subobject's
  message and members of its own, one derived from \<^verbatim>\<open>SStartDebuggingException\<close> has
  members of its own. Every other type is \<open>OtherException\<close>.
\<close>

datatype exn =
    CAssertException string
  | DerivedAssertException string string
  | SStartDebuggingException
  | DerivedStartDebuggingException string
  | OtherException string

text \<open>
  A call returns a value, leaves by an exception, ends the process
  (\<^verbatim>\<open>std::terminate\<close>) or never returns (a read that blocks for ever).
\<close>

datatype 'a outcome = Normal 'a | Threw exn | Terminated | Hangs

type_synonym ('a, 'w) comp = "'w \<Rightarrow> 'a outcome \<times> 'w"

definition ret :: "'a \<Rightarrow> ('a, 'w) comp" where
  "ret a w = (Normal a, w)"

text \<open>Sequencing: the second computation runs only when the first returns.\<close>

definition andThen :: "('a, 'w) comp \<Rightarrow> ('a \<Rightarrow> ('b, 'w) comp) \<Rightarrow> ('b, 'w) comp" where
  "andThen m k w =
     (case m w of
        (Normal a, w') \<Rightarrow> k a w'
      | (Threw x, w') \<Rightarrow> (Threw x, w')
      | (Terminated, w') \<Rightarrow> (Terminated, w')
      | (Hangs, w') \<Rightarrow> (Hangs, w'))"

text \<open>
  A call written as an expression statement: whatever value it returns is discarded.
\<close>

definition statement :: "('a, 'w) comp \<Rightarrow> (unit, 'w) comp" where
  "statement m = andThen m (\<lambda>_. ret ())"

text \<open>
  \<^verbatim>\<open>catch (const dbgh::CAssertException& e)\<close>: the clause matches the class and the classes
  derived from it, and binds \<open>e\<close> to the base subobject, whose message is returned.
\<close>

fun catch_CAssertException :: "exn \<Rightarrow> string option" where
  "catch_CAssertException (CAssertException m) = Some m"
| "catch_CAssertException (DerivedAssertException m x) = Some m"
| "catch_CAssertException SStartDebuggingException = None"
| "catch_CAssertException (DerivedStartDebuggingException x) = None"
| "catch_CAssertException (OtherException x) = None"

text \<open>
  \<^verbatim>\<open>catch (const dbgh::impl::CAssertHandler::SStartDebuggingException)\<close>: the clause matches
  the class and the classes derived from it; the object caught is not used.
\<close>

fun catch_SStartDebuggingException :: "exn \<Rightarrow> bool" where
  "catch_SStartDebuggingException SStartDebuggingException = True"
| "catch_SStartDebuggingException (DerivedStartDebuggingException x) = True"
| "catch_SStartDebuggingException (CAssertException m) = False"
| "catch_SStartDebuggingException (DerivedAssertException m x) = False"
| "catch_SStartDebuggingException (OtherException x) = False"

section \<open>Call sites and the state of the process\<close>

text \<open>
  What a macro expansion fixes at its place in the text: the identity of its
  \<^verbatim>\<open>static bool __ignore\<close>, and \<^verbatim>\<open>#_expression_\<close>, \<^verbatim>\<open>__FILE__\<close>, \<^verbatim>\<open>__LINE__\<close>,
  \<^verbatim>\<open>__func__\<close>.
\<close>

record call_site =
  site_id :: nat
  expression_text :: string
  file_name :: string
  line_no :: nat
  function_name :: string

text \<open>
  The state a check runs in. \<open>world\<close> is everything the guarded expression, the format
  arguments, the registry and the handler can reach. \<open>ignore\<close> holds the block-scoped
  \<^verbatim>\<open>static bool __ignore\<close> of every expansion of \<^verbatim>\<open>IMPL_DBGH_ASSERT_DEBUG\<close>: no other code
  can name it, the handler receives a reference to the one of the site that calls it.
  \<open>breaks\<close> lists the sites whose \<^verbatim>\<open>START_DEBUGGING\<close> instruction has executed.
\<close>

record 'w state =
  world :: 'w
  ignore :: "nat \<Rightarrow> bool"
  breaks :: "nat list"

text \<open>\<^verbatim>\<open>static bool __ignore { false };\<close> at every site, no breakpoint executed yet.\<close>

definition initial_state :: "'w \<Rightarrow> 'w state" where
  "initial_state w = \<lparr>world = w, ignore = (\<lambda>_. False), breaks = []\<rparr>"

text \<open>
  The functions the macros call and \<^verbatim>\<open>DBGHAssert.h\<close> only includes
  (\<^verbatim>\<open>impl/CAssertConfig.h\<close>, \<^verbatim>\<open>impl/CAssertHandler.h\<close>): they are parameters of the macros'
  model. \<open>HandleAssert\<close> is the call with five arguments of \<^verbatim>\<open>IMPL_DBGH_ASSERT\<close>,
  \<open>HandleAssertIgnore\<close> the call with \<^verbatim>\<open>__ignore\<close> as sixth argument of
  \<^verbatim>\<open>IMPL_DBGH_ASSERT_DEBUG\<close>; the latter takes the latch's value and returns its new one.
  The header does not show what type \<^verbatim>\<open>HandleAssert\<close> returns: it is the parameter \<open>'a\<close>,
  and both macros call it as an expression statement.
\<close>

record ('w, 'a) env =
  IsActiveAssert :: "EAssertLevel \<Rightarrow> (bool, 'w) comp"
  HandleAssert ::
    "EAssertLevel \<Rightarrow> string \<Rightarrow> string \<Rightarrow> string \<Rightarrow> nat \<Rightarrow> string \<Rightarrow> ('a, 'w) comp"
  HandleAssertIgnore ::
    "EAssertLevel \<Rightarrow> string \<Rightarrow> string \<Rightarrow> string \<Rightarrow> nat \<Rightarrow> string \<Rightarrow> bool \<Rightarrow>
       'w \<Rightarrow> ('a outcome \<times> bool) \<times> 'w"

text \<open>A computation on the world, run inside the state.\<close>

definition on_world :: "('a, 'w) comp \<Rightarrow> ('a, 'w state) comp" where
  "on_world m s = (case m (world s) of (r, w') \<Rightarrow> (r, s\<lparr>world := w'\<rparr>))"

text \<open>
  The handler call of the Debug macro: \<^verbatim>\<open>__ignore\<close> is passed by reference, so what the
  handler leaves in it is stored back at this site, however the call ends.
\<close>

definition call_with_ignore ::
  "call_site \<Rightarrow> (bool \<Rightarrow> 'w \<Rightarrow> ('a outcome \<times> bool) \<times> 'w) \<Rightarrow> ('a, 'w state) comp" where
  "call_with_ignore site h s =
     (case h (ignore s (site_id site)) (world s) of
        ((r, ign), w') \<Rightarrow>
          (r, s\<lparr>world := w', ignore := (ignore s)(site_id site := ign)\<rparr>))"

section \<open>The macros of DBGHAssert.h\<close>

text \<open>
  \<^verbatim>\<open>START_DEBUGGING\<close>: the breakpoint instruction, part of the expansion at the site.
  Execution goes on after it (the header leaves the case of no attached debugger
  undefined).
\<close>

definition START_DEBUGGING :: "call_site \<Rightarrow> (unit, 'w state) comp" where
  "START_DEBUGGING site s = (Normal (), s\<lparr>breaks := breaks s @ [site_id site]\<rparr>)"

text \<open>
  \<^verbatim>\<open>try { ... } catch (const dbgh::CAssertException& e) { throw e; }\<close>:
  \<^verbatim>\<open>throw e\<close> throws a new object of the static type of \<open>e\<close>, copied from the base
  subobject. Exceptions of other types pass.
\<close>

definition try_catch :: "(unit, 's) comp \<Rightarrow> (unit, 's) comp" where
  "try_catch body s =
     (case body s of
        (Threw x, s') \<Rightarrow>
          (case catch_CAssertException x of
             Some m \<Rightarrow> (Threw (CAssertException m), s')
           | None \<Rightarrow> (Threw x, s'))
      | (r, s') \<Rightarrow> (r, s'))"

text \<open>
  The try block of \<^verbatim>\<open>IMPL_DBGH_ASSERT_DEBUG\<close>: the clause for
  \<^verbatim>\<open>SStartDebuggingException\<close> comes first and runs \<^verbatim>\<open>START_DEBUGGING\<close>; the clause for
  \<^verbatim>\<open>CAssertException\<close> follows, with the same \<^verbatim>\<open>throw e;\<close> as in the plain macro.
\<close>

definition try_catch_debug :: "call_site \<Rightarrow> (unit, 'w state) comp \<Rightarrow> (unit, 'w state) comp" where
  "try_catch_debug site body s =
     (case body s of
        (Threw x, s') \<Rightarrow>
          (if catch_SStartDebuggingException x then START_DEBUGGING site s'
           else case catch_CAssertException x of
             Some m \<Rightarrow> (Threw (CAssertException m), s')
           | None \<Rightarrow> (Threw x, s'))
      | (r, s') \<Rightarrow> (r, s'))"

text \<open>
  \<^verbatim>\<open>IMPL_DBGH_ASSERT(_level_, _expression_, ...)\<close>. \<open>expression\<close> is
  \<^verbatim>\<open>bool(_expression_)\<close> and \<open>format\<close> is \<^verbatim>\<open>std::format(__VA_ARGS__)\<close> with the
  evaluation of its arguments; \<^verbatim>\<open>&&\<close> evaluates its right operand only when the left
  one is true.
\<close>

definition IMPL_DBGH_ASSERT ::
  "('w, 'a) env \<Rightarrow> EAssertLevel \<Rightarrow> call_site \<Rightarrow> (bool, 'w) comp \<Rightarrow> (string, 'w) comp \<Rightarrow>
     (unit, 'w state) comp" where
  "IMPL_DBGH_ASSERT env level site expression format =
     andThen (on_world (IsActiveAssert env level)) (\<lambda>active.
       if \<not> active then ret ()
       else andThen (on_world expression) (\<lambda>e.
         if e then ret ()
         else try_catch
           (andThen (on_world format) (\<lambda>message.
              statement (on_world (HandleAssert env level message (expression_text site)
                (file_name site) (line_no site) (function_name site)))))))"

text \<open>\<^verbatim>\<open>IMPL_DBGH_ASSERT_DEBUG(_level_, _expression_, ...)\<close>.\<close>

definition IMPL_DBGH_ASSERT_DEBUG ::
  "('w, 'a) env \<Rightarrow> EAssertLevel \<Rightarrow> call_site \<Rightarrow> (bool, 'w) comp \<Rightarrow> (string, 'w) comp \<Rightarrow>
     (unit, 'w state) comp" where
  "IMPL_DBGH_ASSERT_DEBUG env level site expression format s =
     (if ignore s (site_id site) then (Normal (), s)
      else andThen (on_world (IsActiveAssert env level)) (\<lambda>active.
        if \<not> active then ret ()
        else andThen (on_world expression) (\<lambda>e.
          if e then ret ()
          else try_catch_debug site
            (andThen (on_world format) (\<lambda>message.
               statement (call_with_ignore site
                 (HandleAssertIgnore env level message (expression_text site)
                    (file_name site) (line_no site) (function_name site))))))) s)"

text \<open>
  The public macros. \<open>DEBUG\<close> says whether the preprocessor symbol \<^verbatim>\<open>DEBUG\<close> is
  defined: \<^verbatim>\<open>#ifndef DEBUG\<close> chooses between the two groups of definitions.
\<close>

definition ASSERT_DEBUG ::
  "('w, 'a) env \<Rightarrow> call_site \<Rightarrow> (bool, 'w) comp \<Rightarrow> (string, 'w) comp \<Rightarrow> (unit, 'w state) comp" where
  "ASSERT_DEBUG env = IMPL_DBGH_ASSERT_DEBUG env Debug"

definition ASSERT_WARNING ::
  "bool \<Rightarrow> ('w, 'a) env \<Rightarrow> call_site \<Rightarrow> (bool, 'w) comp \<Rightarrow> (string, 'w) comp \<Rightarrow>
     (unit, 'w state) comp" where
  "ASSERT_WARNING DEBUG env =
     (if \<not> DEBUG then IMPL_DBGH_ASSERT env Warning else IMPL_DBGH_ASSERT_DEBUG env Debug)"

definition ASSERT_ERROR ::
  "bool \<Rightarrow> ('w, 'a) env \<Rightarrow> call_site \<Rightarrow> (bool, 'w) comp \<Rightarrow> (string, 'w) comp \<Rightarrow>
     (unit, 'w state) comp" where
  "ASSERT_ERROR DEBUG env =
     (if \<not> DEBUG then IMPL_DBGH_ASSERT env Error else IMPL_DBGH_ASSERT_DEBUG env Debug)"

definition ASSERT_FATAL ::
  "bool \<Rightarrow> ('w, 'a) env \<Rightarrow> call_site \<Rightarrow> (bool, 'w) comp \<Rightarrow> (string, 'w) comp \<Rightarrow>
     (unit, 'w state) comp" where
  "ASSERT_FATAL DEBUG env =
     (if \<not> DEBUG then IMPL_DBGH_ASSERT env Fatal else IMPL_DBGH_ASSERT_DEBUG env Debug)"

section \<open>The registry, the handler and the default executor\<close>

text \<open>
  The world of a process that uses the default executor: the caller's own variables, the
  lines written to \<^verbatim>\<open>std::cerr\<close>, the results of the reads from \<^verbatim>\<open>std::cin\<close> still to
  come (\<open>None\<close> is a read that fails) and the value of \<^verbatim>\<open>std::uncaught_exceptions()\<close>.
\<close>

record 'u io =
  user :: 'u
  cerr :: "string list"
  cin :: "string option list"
  uncaught_exceptions :: nat

text \<open>The guarded expression and the format arguments reach the caller's variables.\<close>

definition on_user :: "('a, 'u) comp \<Rightarrow> ('a, 'u io) comp" where
  "on_user m w = (case m (user w) of (r, u') \<Rightarrow> (r, w\<lparr>user := u'\<rparr>))"

text \<open>
  Modelled from the spec: the Level Registry of \<^verbatim>\<open>impl/CAssertConfig.h\<close>, which is not
  among the sources. It maps each level to enabled or disabled; Warning and Error start
  enabled, Fatal disabled, Debug follows the debug switch.
\<close>

fun default_levels :: "bool \<Rightarrow> EAssertLevel \<Rightarrow> bool" where
  "default_levels DEBUG Debug = DEBUG"
| "default_levels DEBUG Warning = True"
| "default_levels DEBUG Error = True"
| "default_levels DEBUG Fatal = False"

text \<open>
  Modelled from the spec: \<^verbatim>\<open>Disable(level)\<close> of the Level Registry (\<^verbatim>\<open>impl/CAssertConfig.h\<close>,
  not among the sources): the flag of the level becomes false, at once and for all later
  checks; the other levels keep theirs.
\<close>

definition DisableAsserts :: "EAssertLevel \<Rightarrow> (EAssertLevel \<Rightarrow> bool) \<Rightarrow> EAssertLevel \<Rightarrow> bool" where
  "DisableAsserts level enabled = enabled(level := False)"

text \<open>
  Modelled from the spec: the FailureContext that \<^verbatim>\<open>CAssertHandler::HandleAssert\<close>
  (\<^verbatim>\<open>impl/CAssertHandler.h\<close>, not among the sources) builds from its arguments.
\<close>

record FailureContext =
  ctx_level :: EAssertLevel
  ctx_file :: string
  ctx_function :: string
  ctx_line :: nat
  ctx_expression :: string
  ctx_message :: string

text \<open>
  Modelled from the spec: the \<^verbatim>\<open><LEVEL>\<close> field of the report line; the header's comments
  name the assertion types DEBUG, WARNING, ERROR and FATAL.
\<close>

fun level_name :: "EAssertLevel \<Rightarrow> string" where
  "level_name Debug = ''DEBUG''"
| "level_name Warning = ''WARNING''"
| "level_name Error = ''ERROR''"
| "level_name Fatal = ''FATAL''"

text \<open>
  Modelled from the spec: the count and the line number stand in the report line as
  decimal numerals.
\<close>

definition digit_char :: "nat \<Rightarrow> char" where
  "digit_char d = ''0123456789'' ! (d mod 10)"

fun decimal :: "nat \<Rightarrow> string" where
  "decimal n = (if n < 10 then [digit_char n] else decimal (n div 10) @ [digit_char (n mod 10)])"

declare decimal.simps [simp del]

text \<open>
  Modelled from the spec: the default report line of \<^verbatim>\<open>CHandlerExecutor\<close>
  (\<^verbatim>\<open>impl/CHandlerExecutor.cpp\<close>, not among the sources):
  \<^verbatim>\<open>[<LEVEL>] Uncaught: <N>, File: <file>, Function: <fn>, Line: <line>, Expression: "<expr>", Message: <message>\<close>.
\<close>

definition report :: "FailureContext \<Rightarrow> nat \<Rightarrow> string" where
  "report ctx n =
     ''['' @ level_name (ctx_level ctx) @ ''] Uncaught: '' @ decimal n
     @ '', File: '' @ ctx_file ctx @ '', Function: '' @ ctx_function ctx
     @ '', Line: '' @ decimal (ctx_line ctx)
     @ '', Expression: '' @ [CHR 0x22] @ ctx_expression ctx @ [CHR 0x22]
     @ '', Message: '' @ ctx_message ctx"

text \<open>
  Modelled from the spec: the report goes to the diagnostic error stream, with the count
  of exceptions in flight at the moment of the failure.
\<close>

definition write_report :: "FailureContext \<Rightarrow> 'u io \<Rightarrow> 'u io" where
  "write_report ctx w = w\<lparr>cerr := cerr w @ [report ctx (uncaught_exceptions w)]\<rparr>"

text \<open>
  Modelled from the spec: \<^verbatim>\<open>HandleWarning(ctx)\<close> of the default Handler Executor
  (\<^verbatim>\<open>impl/CHandlerExecutor.cpp\<close>, not among the sources) reports the context and returns.
\<close>

definition HandleWarning :: "FailureContext \<Rightarrow> (unit, 'u io) comp" where
  "HandleWarning ctx w = (Normal (), write_report ctx w)"

text \<open>
  Modelled from the spec: \<^verbatim>\<open>HandleError(ctx)\<close> of the default Handler Executor (same absent
  file) reports the context and fails with the assertion exception that carries the
  formatted message.
\<close>

definition HandleError :: "FailureContext \<Rightarrow> (unit, 'u io) comp" where
  "HandleError ctx w = (Threw (CAssertException (ctx_message ctx)), write_report ctx w)"

text \<open>
  Modelled from the spec: \<^verbatim>\<open>HandleFatal(ctx)\<close> of the default Handler Executor (same absent
  file) reports the context and terminates the process; it never returns.
\<close>

definition HandleFatal :: "FailureContext \<Rightarrow> (unit, 'u io) comp" where
  "HandleFatal ctx w = (Terminated, write_report ctx w)"

text \<open>
  Modelled from the spec: the resolutions \<^verbatim>\<open>HandleInteractive\<close> returns (its declaration
  is in the absent \<^verbatim>\<open>impl\<close> files).
\<close>

datatype Resolution = Continue | Suppressed | Break | Escalate | Abort

text \<open>
  Modelled from the spec: the Interactive Resolution Protocol (its code is in the absent
  \<^verbatim>\<open>impl\<close> files; the header's comment on \<^verbatim>\<open>ASSERT_DEBUG\<close> lists the same commands). The
  commands are the single characters I, F, D, T, B in either case, one token per read.
\<close>

definition command :: "string \<Rightarrow> Resolution option" where
  "command token =
     (if token = ''I'' \<or> token = ''i'' then Some Continue
      else if token = ''F'' \<or> token = ''f'' then Some Suppressed
      else if token = ''D'' \<or> token = ''d'' then Some Break
      else if token = ''T'' \<or> token = ''t'' then Some Escalate
      else if token = ''B'' \<or> token = ''b'' then Some Abort
      else None)"

text \<open>
  Modelled from the spec: what one read yields. A failed read and a token outside the
  alphabet yield no resolution.
\<close>

definition accepted :: "string option \<Rightarrow> Resolution option" where
  "accepted r = (case r of None \<Rightarrow> None | Some token \<Rightarrow> command token)"

text \<open>
  Modelled from the spec: the menu of step 2, one line that names the five commands (the
  spec gives its content, not its wording).
\<close>

definition menu :: string where
  "menu = ''(I) ignore once / (F) ignore forever / (D) break into debugger / (T) throw / (B) terminate''"

text \<open>
  Modelled from the spec: steps 2 to 4 of the protocol, the state \<open>Prompting\<close>: emit the
  menu, read, and either resolve or prompt again. The list is what the reads from standard input will yield; when it is used up no read
  succeeds any more, the loop prompts for ever and the call never returns.
\<close>

fun Prompting :: "string option list \<Rightarrow> (Resolution, 'u io) comp" where
  "Prompting [] w = (Hangs, w\<lparr>cerr := cerr w @ [menu], cin := []\<rparr>)"
| "Prompting (r # rest) w =
     (case accepted r of
        None \<Rightarrow> Prompting rest (w\<lparr>cerr := cerr w @ [menu], cin := rest\<rparr>)
      | Some res \<Rightarrow> (Normal res, w\<lparr>cerr := cerr w @ [menu], cin := rest\<rparr>))"

text \<open>
  Modelled from the spec: \<^verbatim>\<open>HandleInteractive(ctx, ignoreLatchRef)\<close> of the default
  executor. Step 1 emits the report, then the protocol runs; on Suppressed the latch is
  set. It returns the resolution and the latch's new value.
\<close>

definition HandleInteractive ::
  "FailureContext \<Rightarrow> bool \<Rightarrow> 'u io \<Rightarrow> (Resolution outcome \<times> bool) \<times> 'u io" where
  "HandleInteractive ctx latch w =
     (case Prompting (cin w) (write_report ctx w) of
        (Normal res, w') \<Rightarrow> ((Normal res, if res = Suppressed then True else latch), w')
      | (r, w') \<Rightarrow> ((r, latch), w'))"

text \<open>
  Modelled from the spec: the effect section 4.4 gives each resolution (fall through,
  breakpoint, assertion exception with the formatted message, termination), as the way
  the call of the absent \<^verbatim>\<open>CAssertHandler::HandleAssert\<close> ends. Here the model leaves the
  spec's words, because the header rules them out: the spec has the resolution returned
  and acted on at the call site, but the expansion discards what the call returns and
  has nothing but its two catch clauses to act on. So the call is taken to end in the way
  on which the expansion produces the effect, which is also what the header's comment on
  \<^verbatim>\<open>ASSERT_DEBUG\<close> says of the commands (T throws \<^verbatim>\<open>CAssertException\<close>, B calls the
  executor's Terminate, D breaks into the debugger). This is an assumption about code
  that is not among the sources; no theorem stated for an arbitrary handler rests on it.
\<close>

fun signal :: "Resolution \<Rightarrow> string \<Rightarrow> unit outcome" where
  "signal Continue message = Normal ()"
| "signal Suppressed message = Normal ()"
| "signal Break message = Threw SStartDebuggingException"
| "signal Escalate message = Threw (CAssertException message)"
| "signal Abort message = Terminated"

text \<open>
  Modelled from the spec: \<^verbatim>\<open>CAssertHandler::HandleAssert<level>\<close> (\<^verbatim>\<open>impl/CAssertHandler.h\<close>,
  not among the sources) with the default executor installed. It builds the context and
  invokes the operation that matches the level; for Debug the resolution is handed on as
  \<open>signal\<close> says. \<open>latch\<close> is the referenced \<^verbatim>\<open>__ignore\<close>.
\<close>

definition dispatch ::
  "EAssertLevel \<Rightarrow> string \<Rightarrow> string \<Rightarrow> string \<Rightarrow> nat \<Rightarrow> string \<Rightarrow> bool \<Rightarrow>
     'u io \<Rightarrow> (unit outcome \<times> bool) \<times> 'u io" where
  "dispatch level message expr file line func latch w =
     (let ctx = \<lparr>ctx_level = level, ctx_file = file, ctx_function = func, ctx_line = line,
                 ctx_expression = expr, ctx_message = message\<rparr>
      in case level of
           Warning \<Rightarrow> (case HandleWarning ctx w of (r, w') \<Rightarrow> ((r, latch), w'))
         | Error \<Rightarrow> (case HandleError ctx w of (r, w') \<Rightarrow> ((r, latch), w'))
         | Fatal \<Rightarrow> (case HandleFatal ctx w of (r, w') \<Rightarrow> ((r, latch), w'))
         | Debug \<Rightarrow>
             (case HandleInteractive ctx latch w of
                ((Normal res, latch'), w') \<Rightarrow> ((signal res message, latch'), w')
              | ((Threw x, latch'), w') \<Rightarrow> ((Threw x, latch'), w')
              | ((Terminated, latch'), w') \<Rightarrow> ((Terminated, latch'), w')
              | ((Hangs, latch'), w') \<Rightarrow> ((Hangs, latch'), w')))"

text \<open>
  Modelled from the spec: the collaborators of the macros in a process that keeps the
  default executor (all in the absent \<^verbatim>\<open>impl\<close> files). \<^verbatim>\<open>IsActive(level)\<close> reads the flag
  of the level and changes nothing; both calls of \<^verbatim>\<open>HandleAssert\<close> dispatch, the one
  without \<^verbatim>\<open>__ignore\<close> has no latch to hand on.
\<close>

definition default_env :: "(EAssertLevel \<Rightarrow> bool) \<Rightarrow> ('u io, unit) env" where
  "default_env enabled =
     \<lparr>IsActiveAssert = (\<lambda>level. ret (enabled level)),
      HandleAssert = (\<lambda>level message expr file line func w.
         case dispatch level message expr file line func False w of
           ((r, latch), w') \<Rightarrow> (r, w')),
      HandleAssertIgnore = dispatch\<rparr>"

text \<open>
  The resolution a given input leads to: that of its first command, if it has one. This
  is not part of the program, it states what \<open>Prompting\<close> is proved to compute.
\<close>

fun chosen :: "string option list \<Rightarrow> Resolution option" where
  "chosen [] = None"
| "chosen (r # rest) = (case accepted r of None \<Rightarrow> chosen rest | Some res \<Rightarrow> Some res)"

section \<open>A spy and two call sites\<close>

text \<open>
  Collaborators that write every call into a log, the log being the whole world: the
  registry answers from \<open>enabled\<close>, the handler call ends as \<open>h\<close> says (returning a
  value of any type, throwing, terminating) and leaves the latch as \<open>set_latch\<close> says when
  it is given one.
\<close>

definition spy_env ::
  "(EAssertLevel \<Rightarrow> bool) \<Rightarrow> 'a outcome \<Rightarrow> bool \<Rightarrow> (string list, 'a) env" where
  "spy_env enabled h set_latch =
     \<lparr>IsActiveAssert = (\<lambda>level log. (Normal (enabled level), log @ [''IsActiveAssert''])),
      HandleAssert = (\<lambda>level message expr file line func log.
         (h, log @ [''HandleAssert '' @ message])),
      HandleAssertIgnore = (\<lambda>level message expr file line func latch log.
         ((h, set_latch \<or> latch), log @ [''HandleAssert '' @ message]))\<rparr>"

definition spy_expression :: "bool \<Rightarrow> (bool, string list) comp" where
  "spy_expression b log = (Normal b, log @ [''expression''])"

definition spy_format :: "string \<Rightarrow> (string, string list) comp" where
  "spy_format message log = (Normal message, log @ [''format''])"

definition site_A :: call_site where
  "site_A = \<lparr>site_id = 0, expression_text = ''2 < 1'', file_name = ''main.cpp'',
             line_no = 42, function_name = ''main''\<rparr>"

definition site_B :: call_site where
  "site_B = \<lparr>site_id = 1, expression_text = ''2 < 1'', file_name = ''main.cpp'',
             line_no = 57, function_name = ''main''\<rparr>"

text \<open>
  A caller whose only variable is a counter: \<open>counting b\<close> is a guarded expression that
  increments it and yields \<open>b\<close>, \<open>constant_message\<close> a format call without effect.
\<close>

definition counting :: "bool \<Rightarrow> (bool, nat) comp" where
  "counting b n = (Normal b, Suc n)"

definition constant_message :: "string \<Rightarrow> (string, nat) comp" where
  "constant_message message n = (Normal message, n)"

definition terminal :: "string option list \<Rightarrow> nat io" where
  "terminal input = \<lparr>user = 0, cerr = [], cin = input, uncaught_exceptions = 0\<rparr>"

text \<open>
  The context of a failure at a site, and its report line with no exception in flight.
\<close>

definition context_at :: "call_site \<Rightarrow> EAssertLevel \<Rightarrow> string \<Rightarrow> FailureContext" where
  "context_at site level message =
     \<lparr>ctx_level = level, ctx_file = file_name site, ctx_function = function_name site,
      ctx_line = line_no site, ctx_expression = expression_text site, ctx_message = message\<rparr>"

definition report_at :: "call_site \<Rightarrow> EAssertLevel \<Rightarrow> string \<Rightarrow> string" where
  "report_at site level message = report (context_at site level message) 0"

text \<open>A guarded expression without effect.\<close>

definition plain :: "bool \<Rightarrow> (bool, nat) comp" where
  "plain b n = (Normal b, n)"

text \<open>
  The state after a first failing check at site A that was answered with \<open>f\<close>, one more
  token waiting on standard input.
\<close>

definition silenced_A :: "nat io state" where
  "silenced_A =
     \<lparr>world = \<lparr>user = 1, cerr = [report_at site_A Debug ''bad value 5'', menu],
                 cin = [Some ''i''], uncaught_exceptions = 0\<rparr>,
      ignore = (\<lambda>_. False)(0 := True), breaks = []\<rparr>"

text \<open>The start state with the latch of one site already set.\<close>

definition latched_at :: "nat \<Rightarrow> 'w \<Rightarrow> 'w state" where
  "latched_at i w = \<lparr>world = w, ignore = (\<lambda>_. False)(i := True), breaks = []\<rparr>"

section \<open>Basic facts\<close>

lemma unset_latch_stays_unset: "(\<lambda>_. False)(i := False) = (\<lambda>_. False)"
  by (rule ext) simp

section \<open>The paths through the two macros\<close>

lemma debug_latched:
  "ignore s (site_id site) \<Longrightarrow>
   IMPL_DBGH_ASSERT_DEBUG env level site expression format s = (Normal (), s)"
  by (simp add: IMPL_DBGH_ASSERT_DEBUG_def)

lemma release_inactive:
  "IsActiveAssert env level (world s) = (Normal False, w) \<Longrightarrow>
   IMPL_DBGH_ASSERT env level site expression format s = (Normal (), s\<lparr>world := w\<rparr>)"
  by (simp add: IMPL_DBGH_ASSERT_def andThen_def on_world_def ret_def)

lemma debug_inactive:
  "\<not> ignore s (site_id site) \<Longrightarrow> IsActiveAssert env level (world s) = (Normal False, w) \<Longrightarrow>
   IMPL_DBGH_ASSERT_DEBUG env level site expression format s = (Normal (), s\<lparr>world := w\<rparr>)"
  by (simp add: IMPL_DBGH_ASSERT_DEBUG_def andThen_def on_world_def ret_def)

lemma release_passing:
  "IsActiveAssert env level (world s) = (Normal True, w1) \<Longrightarrow>
   expression w1 = (Normal True, w2) \<Longrightarrow>
   IMPL_DBGH_ASSERT env level site expression format s = (Normal (), s\<lparr>world := w2\<rparr>)"
  by (simp add: IMPL_DBGH_ASSERT_def andThen_def on_world_def ret_def)

lemma debug_passing:
  "\<not> ignore s (site_id site) \<Longrightarrow> IsActiveAssert env level (world s) = (Normal True, w1) \<Longrightarrow>
   expression w1 = (Normal True, w2) \<Longrightarrow>
   IMPL_DBGH_ASSERT_DEBUG env level site expression format s = (Normal (), s\<lparr>world := w2\<rparr>)"
  by (simp add: IMPL_DBGH_ASSERT_DEBUG_def andThen_def on_world_def ret_def)

text \<open>
  The failure branch. The handler call ends as \<open>r\<close>; a value it returns is discarded,
  an exception meets the catch clauses, and the process may end or hang inside the call.
\<close>

lemma release_failing:
  assumes "IsActiveAssert env level (world s) = (Normal True, w1)"
    and "expression w1 = (Normal False, w2)"
    and "format w2 = (Normal message, w3)"
    and "HandleAssert env level message (expression_text site) (file_name site)
           (line_no site) (function_name site) w3 = (r, w4)"
  shows "IMPL_DBGH_ASSERT env level site expression format s =
           (case r of
              Normal a \<Rightarrow> (Normal (), s\<lparr>world := w4\<rparr>)
            | Threw x \<Rightarrow>
                (case catch_CAssertException x of
                   Some m \<Rightarrow> (Threw (CAssertException m), s\<lparr>world := w4\<rparr>)
                 | None \<Rightarrow> (Threw x, s\<lparr>world := w4\<rparr>))
            | Terminated \<Rightarrow> (Terminated, s\<lparr>world := w4\<rparr>)
            | Hangs \<Rightarrow> (Hangs, s\<lparr>world := w4\<rparr>))"
  using assms
  by (simp add: IMPL_DBGH_ASSERT_def andThen_def on_world_def ret_def try_catch_def
      statement_def split: outcome.splits option.splits)

lemma debug_failing:
  assumes "\<not> ignore s (site_id site)"
    and "IsActiveAssert env level (world s) = (Normal True, w1)"
    and "expression w1 = (Normal False, w2)"
    and "format w2 = (Normal message, w3)"
    and "HandleAssertIgnore env level message (expression_text site) (file_name site)
           (line_no site) (function_name site) False w3 = ((r, latch), w4)"
  shows "IMPL_DBGH_ASSERT_DEBUG env level site expression format s =
           (case r of
              Normal a \<Rightarrow>
                (Normal (),
                 \<lparr>world = w4, ignore = (ignore s)(site_id site := latch), breaks = breaks s\<rparr>)
            | Threw x \<Rightarrow>
                (if catch_SStartDebuggingException x
                 then (Normal (),
                       \<lparr>world = w4, ignore = (ignore s)(site_id site := latch),
                        breaks = breaks s @ [site_id site]\<rparr>)
                 else case catch_CAssertException x of
                   Some m \<Rightarrow>
                     (Threw (CAssertException m),
                      \<lparr>world = w4, ignore = (ignore s)(site_id site := latch),
                       breaks = breaks s\<rparr>)
                 | None \<Rightarrow>
                     (Threw x,
                      \<lparr>world = w4, ignore = (ignore s)(site_id site := latch),
                       breaks = breaks s\<rparr>))
            | Terminated \<Rightarrow>
                (Terminated,
                 \<lparr>world = w4, ignore = (ignore s)(site_id site := latch), breaks = breaks s\<rparr>)
            | Hangs \<Rightarrow>
                (Hangs,
                 \<lparr>world = w4, ignore = (ignore s)(site_id site := latch), breaks = breaks s\<rparr>))"
  using assms
  by (simp add: IMPL_DBGH_ASSERT_DEBUG_def andThen_def on_world_def ret_def statement_def
      try_catch_debug_def call_with_ignore_def START_DEBUGGING_def
      split: outcome.splits option.splits)

section \<open>Gating\<close>

text \<open>
  C1. A check at a level the registry reports inactive does nothing, in either macro and
  for every level: the call falls through and the state after it is the state the
  registry's query itself leaves (the state before, for a registry that only reads its
  flag). The result is the same for every guarded expression, every format call and
  every handler, with whatever effects they have: none of them is run, no context is
  built, no latch and no breakpoint is touched. (At a site of the Debug macro whose latch
  is set not even the registry is asked.)
\<close>

theorem inactive_level_does_nothing:
  assumes "IsActiveAssert env level (world s) = (Normal False, w)"
  shows "IMPL_DBGH_ASSERT env level site expression format s = (Normal (), s\<lparr>world := w\<rparr>)
       \<and> IMPL_DBGH_ASSERT_DEBUG env level site expression format s
           = (Normal (), if ignore s (site_id site) then s else s\<lparr>world := w\<rparr>)"
  using assms by (simp add: release_inactive debug_inactive debug_latched)

text \<open>
  After \<open>DisableAsserts Warning\<close> a failing Warning check with a spy installed logs the
  registry's query and nothing else.
\<close>

theorem inactive_level_does_nothing_witness:
  "IsActiveAssert (spy_env (DisableAsserts Warning (default_levels False)) (Terminated :: unit outcome) True)
     Warning (world (initial_state [])) = (Normal False, [''IsActiveAssert''])
   \<and> IMPL_DBGH_ASSERT (spy_env (DisableAsserts Warning (default_levels False)) (Terminated :: unit outcome) True)
       Warning site_A (spy_expression False) (spy_format ''bad value 5'') (initial_state [])
     = (Normal (), \<lparr>world = [''IsActiveAssert''], ignore = (\<lambda>_. False), breaks = []\<rparr>)
   \<and> IMPL_DBGH_ASSERT_DEBUG (spy_env (DisableAsserts Warning (default_levels False)) (Terminated :: unit outcome) True)
       Warning site_A (spy_expression False) (spy_format ''bad value 5'') (initial_state [])
     = (Normal (), \<lparr>world = [''IsActiveAssert''], ignore = (\<lambda>_. False), breaks = []\<rparr>)"
  using inactive_level_does_nothing
    [of "spy_env (DisableAsserts Warning (default_levels False)) (Terminated :: unit outcome) True" Warning
        "initial_state []" "[''IsActiveAssert'']" site_A "spy_expression False"
        "spy_format ''bad value 5''"]
  by (simp add: spy_env_def DisableAsserts_def initial_state_def)

text \<open>
  C9. At a site of the Debug macro whose latch is set, a check falls through and leaves
  the state as it was, whatever the registry's query, the guarded expression, the format
  call and the handler would do: the latch is tested first and none of them is evaluated.
\<close>

theorem latched_site_evaluates_nothing:
  assumes "ignore s (site_id site)"
  shows "IMPL_DBGH_ASSERT_DEBUG env level site expression format s = (Normal (), s)"
  using assms by (rule debug_latched)

theorem latched_site_evaluates_nothing_witness:
  "ignore (latched_at 0 []) (site_id site_A)
   \<and> IMPL_DBGH_ASSERT_DEBUG (spy_env (default_levels True) (Terminated :: unit outcome) False) Debug site_A
       (spy_expression False) (spy_format ''bad value 5'') (latched_at 0 [])
     = (Normal (), \<lparr>world = [], ignore = (\<lambda>_. False)(0 := True), breaks = []\<rparr>)"
  using latched_site_evaluates_nothing
    [of "latched_at 0 []" site_A "spy_env (default_levels True) (Terminated :: unit outcome) False" Debug
        "spy_expression False" "spy_format ''bad value 5''"]
  by (simp add: latched_at_def site_A_def)

text \<open>
  C10. A check whose level is active and whose guarded expression yields true falls
  through, in either macro, and the state after it is the state the registry's query and
  the evaluation of the guarded expression leave: the result is the same for every format
  call and every handler, so nothing is formatted, no handler is invoked, and no latch
  and no breakpoint changes. (In the Debug macro the expression is evaluated only at a
  site whose latch is not set.)
\<close>

theorem passing_check_formats_nothing:
  assumes "IsActiveAssert env level (world s) = (Normal True, w1)"
    and "expression w1 = (Normal True, w2)"
  shows "IMPL_DBGH_ASSERT env level site expression format s = (Normal (), s\<lparr>world := w2\<rparr>)
       \<and> (\<not> ignore s (site_id site) \<longrightarrow>
            IMPL_DBGH_ASSERT_DEBUG env level site expression format s
              = (Normal (), s\<lparr>world := w2\<rparr>))"
  using assms by (simp add: release_passing debug_passing)

theorem passing_check_formats_nothing_witness:
  "IsActiveAssert (spy_env (default_levels True) (Terminated :: unit outcome) True) Debug
     (world (initial_state [])) = (Normal True, [''IsActiveAssert''])
   \<and> spy_expression True [''IsActiveAssert''] = (Normal True, [''IsActiveAssert'', ''expression''])
   \<and> \<not> ignore (initial_state []) (site_id site_A)
   \<and> IMPL_DBGH_ASSERT (spy_env (default_levels True) (Terminated :: unit outcome) True) Debug site_A
       (spy_expression True) (spy_format ''bad value 5'') (initial_state [])
     = (Normal (), \<lparr>world = [''IsActiveAssert'', ''expression''], ignore = (\<lambda>_. False),
                     breaks = []\<rparr>)
   \<and> IMPL_DBGH_ASSERT_DEBUG (spy_env (default_levels True) (Terminated :: unit outcome) True) Debug site_A
       (spy_expression True) (spy_format ''bad value 5'') (initial_state [])
     = (Normal (), \<lparr>world = [''IsActiveAssert'', ''expression''], ignore = (\<lambda>_. False),
                     breaks = []\<rparr>)"
  using passing_check_formats_nothing
    [of "spy_env (default_levels True) (Terminated :: unit outcome) True" Debug "initial_state []"
        "[''IsActiveAssert'']" "spy_expression True" "[''IsActiveAssert'', ''expression'']"
        site_A "spy_format ''bad value 5''"]
  by (simp add: spy_env_def spy_expression_def initial_state_def)

section \<open>Exceptions from the handler\<close>

text \<open>
  C2. The claim is that every exception the handler throws from a failing Warning, Error
  or Fatal check reaches the caller with its dynamic type and payload. Here the installed
  executor throws an object of a class derived from \<^verbatim>\<open>CAssertException\<close>, with the message
  \<open>bad value 5\<close> and a member of its own: the caller of \<^verbatim>\<open>ASSERT_ERROR\<close> receives a plain
  \<^verbatim>\<open>CAssertException\<close>, the derived part is gone. \<^verbatim>\<open>throw e;\<close> in the catch clause throws a
  copy of the static type of \<open>e\<close>, where \<^verbatim>\<open>throw;\<close> would rethrow the object caught.
\<close>

theorem derived_exception_is_sliced:
  "IMPL_DBGH_ASSERT
     (spy_env (default_levels False)
        (Threw (DerivedAssertException ''bad value 5'' ''code 17'') :: unit outcome) False)
     Error site_A (spy_expression False) (spy_format ''bad value 5'') (initial_state [])
   = (Threw (CAssertException ''bad value 5''),
      \<lparr>world = [''IsActiveAssert'', ''expression'', ''format'', ''HandleAssert bad value 5''],
       ignore = (\<lambda>_. False), breaks = []\<rparr>)"
  by (simp add: IMPL_DBGH_ASSERT_def spy_env_def spy_expression_def spy_format_def
      initial_state_def andThen_def on_world_def ret_def statement_def try_catch_def)

text \<open>
  What does hold of the plain macro: an exception that the clause for
  \<^verbatim>\<open>CAssertException\<close> does not match leaves the check as it was thrown, and an object of
  exactly that class arrives as an equal copy.
\<close>

lemma unrelated_exception_passes:
  assumes "IsActiveAssert env level (world s) = (Normal True, w1)"
    and "expression w1 = (Normal False, w2)"
    and "format w2 = (Normal message, w3)"
    and "HandleAssert env level message (expression_text site) (file_name site)
           (line_no site) (function_name site) w3 = (Threw x, w4)"
    and "catch_CAssertException x = None \<or> x = CAssertException m"
  shows "IMPL_DBGH_ASSERT env level site expression format s = (Threw x, s\<lparr>world := w4\<rparr>)"
  using release_failing
    [where env = env and level = level and s = s and expression = expression
       and format = format and site = site and r = "Threw x", OF assms(1-4)] assms(5)
  by auto

section \<open>Break, Escalate, Abort at a Debug site\<close>




text \<open>
  C4, as stated, fails: the call site is handed no resolution. The handler call is an
  expression statement, so a handler that returns Escalate, or Abort, leaves the check
  at site A falling through: no assertion exception is raised at the site and the process
  goes on.
\<close>

theorem returned_resolution_counterexample:
  "HandleAssertIgnore (spy_env (default_levels True) (Normal Escalate) False)
     Debug ''bad value 5'' (expression_text site_A) (file_name site_A) (line_no site_A)
     (function_name site_A) False [''IsActiveAssert'', ''expression'', ''format'']
   = ((Normal Escalate, False),
      [''IsActiveAssert'', ''expression'', ''format'', ''HandleAssert bad value 5''])
   \<and> ASSERT_DEBUG (spy_env (default_levels True) (Normal Escalate) False)
       site_A (spy_expression False) (spy_format ''bad value 5'') (initial_state [])
     = (Normal (),
        \<lparr>world = [''IsActiveAssert'', ''expression'', ''format'', ''HandleAssert bad value 5''],
         ignore = (\<lambda>_. False), breaks = []\<rparr>)
   \<and> ASSERT_DEBUG (spy_env (default_levels True) (Normal Abort) False)
       site_A (spy_expression False) (spy_format ''bad value 5'') (initial_state [])
     = (Normal (),
        \<lparr>world = [''IsActiveAssert'', ''expression'', ''format'', ''HandleAssert bad value 5''],
         ignore = (\<lambda>_. False), breaks = []\<rparr>)"
  by (simp add: ASSERT_DEBUG_def IMPL_DBGH_ASSERT_DEBUG_def spy_env_def spy_expression_def
      spy_format_def initial_state_def andThen_def on_world_def ret_def statement_def
      try_catch_debug_def call_with_ignore_def site_A_def unset_latch_stays_unset)

text \<open>
  C4, amended. At a failing Debug check the call site acts on the way the handler call
  ends, not on a resolution returned to it. A call that returns, whatever it returns,
  lets the check fall through. A call that ends by throwing \<^verbatim>\<open>CAssertException\<close> with a
  message lets the check leave as \<^verbatim>\<open>CAssertException\<close> with that message. A call in
  which the process is terminated ends the check there. A call that ends by throwing
  \<^verbatim>\<open>SStartDebuggingException\<close> makes the site execute its breakpoint instruction and fall
  through. In every case the state is the one the handler call leaves, and only the last
  case adds a breakpoint.
\<close>

theorem call_site_acts_on_how_the_handler_call_ends:
  assumes "\<not> ignore s (site_id site)"
    and "IsActiveAssert env Debug (world s) = (Normal True, w1)"
    and "expression w1 = (Normal False, w2)"
    and "format w2 = (Normal message, w3)"
    and "HandleAssertIgnore env Debug message (expression_text site) (file_name site)
           (line_no site) (function_name site) False w3 = ((r, latch), w4)"
  shows "(\<forall>a. r = Normal a \<longrightarrow>
            ASSERT_DEBUG env site expression format s
              = (Normal (), \<lparr>world = w4, ignore = (ignore s)(site_id site := latch),
                              breaks = breaks s\<rparr>))
       \<and> (\<forall>m. r = Threw (CAssertException m) \<longrightarrow>
            ASSERT_DEBUG env site expression format s
              = (Threw (CAssertException m),
                 \<lparr>world = w4, ignore = (ignore s)(site_id site := latch), breaks = breaks s\<rparr>))
       \<and> (r = Terminated \<longrightarrow>
            ASSERT_DEBUG env site expression format s
              = (Terminated,
                 \<lparr>world = w4, ignore = (ignore s)(site_id site := latch), breaks = breaks s\<rparr>))
       \<and> (\<forall>x. r = Threw x \<and> catch_SStartDebuggingException x \<longrightarrow>
            ASSERT_DEBUG env site expression format s
              = (Normal (), \<lparr>world = w4, ignore = (ignore s)(site_id site := latch),
                              breaks = breaks s @ [site_id site]\<rparr>))"
proof -
  have run: "ASSERT_DEBUG env site expression format s =
      (case r of
         Normal a \<Rightarrow>
           (Normal (),
            \<lparr>world = w4, ignore = (ignore s)(site_id site := latch), breaks = breaks s\<rparr>)
       | Threw x \<Rightarrow>
           (if catch_SStartDebuggingException x
            then (Normal (),
                  \<lparr>world = w4, ignore = (ignore s)(site_id site := latch),
                   breaks = breaks s @ [site_id site]\<rparr>)
            else case catch_CAssertException x of
              Some m \<Rightarrow>
                (Threw (CAssertException m),
                 \<lparr>world = w4, ignore = (ignore s)(site_id site := latch),
                  breaks = breaks s\<rparr>)
            | None \<Rightarrow>
                (Threw x,
                 \<lparr>world = w4, ignore = (ignore s)(site_id site := latch),
                  breaks = breaks s\<rparr>))
       | Terminated \<Rightarrow>
           (Terminated,
            \<lparr>world = w4, ignore = (ignore s)(site_id site := latch), breaks = breaks s\<rparr>)
       | Hangs \<Rightarrow>
           (Hangs,
            \<lparr>world = w4, ignore = (ignore s)(site_id site := latch), breaks = breaks s\<rparr>))"
    unfolding ASSERT_DEBUG_def
    using debug_failing [where expression = expression and format = format, OF assms] .
  show ?thesis
  proof (intro conjI allI impI)
    fix a assume "r = Normal a"
    then show "ASSERT_DEBUG env site expression format s
        = (Normal (), \<lparr>world = w4, ignore = (ignore s)(site_id site := latch),
                        breaks = breaks s\<rparr>)"
      using run by simp
  next
    fix m assume "r = Threw (CAssertException m)"
    then show "ASSERT_DEBUG env site expression format s
        = (Threw (CAssertException m),
           \<lparr>world = w4, ignore = (ignore s)(site_id site := latch), breaks = breaks s\<rparr>)"
      using run by simp
  next
    assume "r = Terminated"
    then show "ASSERT_DEBUG env site expression format s
        = (Terminated,
           \<lparr>world = w4, ignore = (ignore s)(site_id site := latch), breaks = breaks s\<rparr>)"
      using run by simp
  next
    fix x assume "r = Threw x \<and> catch_SStartDebuggingException x"
    then show "ASSERT_DEBUG env site expression format s
        = (Normal (), \<lparr>world = w4, ignore = (ignore s)(site_id site := latch),
                        breaks = breaks s @ [site_id site]\<rparr>)"
      using run by simp
  qed
qed

text \<open>
  The handler at site A throws the assertion exception with the formatted message: the
  caller of the check receives it.
\<close>

theorem call_site_acts_on_how_the_handler_call_ends_witness:
  "\<not> ignore (initial_state []) (site_id site_A)
   \<and> ASSERT_DEBUG
       (spy_env (default_levels True)
          (Threw (CAssertException ''bad value 5'') :: Resolution outcome) False)
       site_A (spy_expression False) (spy_format ''bad value 5'') (initial_state [])
     = (Threw (CAssertException ''bad value 5''),
        \<lparr>world = [''IsActiveAssert'', ''expression'', ''format'', ''HandleAssert bad value 5''],
         ignore = (\<lambda>_. False), breaks = []\<rparr>)"
proof -
  let ?env = "spy_env (default_levels True)
      (Threw (CAssertException ''bad value 5'') :: Resolution outcome) False"
  have h1: "\<not> ignore (initial_state []) (site_id site_A)"
    by (simp add: initial_state_def)
  have h2: "IsActiveAssert ?env Debug (world (initial_state []))
      = (Normal True, [''IsActiveAssert''])"
    by (simp add: spy_env_def initial_state_def)
  have h3: "spy_expression False [''IsActiveAssert'']
      = (Normal False, [''IsActiveAssert'', ''expression''])"
    by (simp add: spy_expression_def)
  have h4: "spy_format ''bad value 5'' [''IsActiveAssert'', ''expression'']
      = (Normal ''bad value 5'', [''IsActiveAssert'', ''expression'', ''format''])"
    by (simp add: spy_format_def)
  have h5: "HandleAssertIgnore ?env Debug ''bad value 5'' (expression_text site_A)
      (file_name site_A) (line_no site_A) (function_name site_A) False
      [''IsActiveAssert'', ''expression'', ''format'']
      = ((Threw (CAssertException ''bad value 5''), False),
         [''IsActiveAssert'', ''expression'', ''format'', ''HandleAssert bad value 5''])"
    by (simp add: spy_env_def)
  show ?thesis
    using h1 call_site_acts_on_how_the_handler_call_ends
      [where expression = "spy_expression False" and format = "spy_format ''bad value 5''",
       OF h1 h2 h3 h4 h5]
    by (simp add: initial_state_def site_A_def unset_latch_stays_unset)
qed

section \<open>The interactive protocol\<close>

lemma Prompting_first_command:
  "list_all (\<lambda>r. accepted r = None) junk \<Longrightarrow> accepted r = Some res \<Longrightarrow>
   Prompting (junk @ r # rest) w
     = (Normal res, w\<lparr>cerr := cerr w @ replicate (Suc (length junk)) menu, cin := rest\<rparr>)"
proof (induction junk arbitrary: w)
  case Nil
  then show ?case by simp
next
  case (Cons j junk)
  then show ?case by (simp add: replicate_app_Cons_same)
qed

lemma Prompting_no_command:
  "list_all (\<lambda>r. accepted r = None) input \<Longrightarrow> fst (Prompting input w) = Hangs"
  by (induction input arbitrary: w) simp_all

lemma Prompting_chosen:
  "fst (Prompting input w) = (case chosen input of None \<Rightarrow> Hangs | Some res \<Rightarrow> Normal res)"
  by (induction input arbitrary: w) (simp_all split: option.splits)

lemma command_alphabet:
  "(command token \<noteq> None)
     = (token \<in> set [''I'', ''i'', ''F'', ''f'', ''D'', ''d'', ''T'', ''t'', ''B'', ''b''])"
  by (auto simp: command_def)

lemma HandleInteractive_first_command:
  assumes "list_all (\<lambda>r. accepted r = None) junk" and "accepted r = Some res"
    and "cin w = junk @ r # rest"
  shows "HandleInteractive ctx latch w
     = ((Normal res, res = Suppressed \<or> latch),
        w\<lparr>cerr := cerr w @ report ctx (uncaught_exceptions w)
                   # replicate (Suc (length junk)) menu,
          cin := rest\<rparr>)"
  using assms
  by (simp add: HandleInteractive_def write_report_def Prompting_first_command)

lemma HandleInteractive_no_command:
  assumes "list_all (\<lambda>r. accepted r = None) (cin w)"
  shows "fst (HandleInteractive ctx latch w) = (Hangs, latch)"
proof -
  obtain ro w' where p: "Prompting (cin w) (write_report ctx w) = (ro, w')"
    by (cases "Prompting (cin w) (write_report ctx w)")
  have "ro = Hangs"
    using Prompting_no_command [OF assms, of "write_report ctx w"] p by simp
  then show ?thesis using p by (simp add: HandleInteractive_def)
qed

text \<open>
  C7. The protocol accepts exactly the tokens I, F, D, T, B in either case and maps them
  to Continue, Suppressed, Break, Escalate and Abort. A failed read or any other token
  yields nothing: the run of such reads before the first command only makes the menu
  appear once more for each, and the call returns the resolution of the first command,
  with the latch set when that is Suppressed and as it was otherwise. An input with no
  command at all never lets the call return, and the latch stays as it was.
\<close>

theorem interactive_protocol_commands:
  "(command token \<noteq> None)
     = (token \<in> set [''I'', ''i'', ''F'', ''f'', ''D'', ''d'', ''T'', ''t'', ''B'', ''b''])
   \<and> command ''I'' = Some Continue \<and> command ''i'' = Some Continue
   \<and> command ''F'' = Some Suppressed \<and> command ''f'' = Some Suppressed
   \<and> command ''D'' = Some Break \<and> command ''d'' = Some Break
   \<and> command ''T'' = Some Escalate \<and> command ''t'' = Some Escalate
   \<and> command ''B'' = Some Abort \<and> command ''b'' = Some Abort
   \<and> accepted None = None \<and> accepted (Some token) = command token
   \<and> (list_all (\<lambda>r. accepted r = None) junk \<and> accepted r = Some res
        \<and> cin w = junk @ r # rest \<longrightarrow>
      HandleInteractive ctx latch w
        = ((Normal res, res = Suppressed \<or> latch),
           w\<lparr>cerr := cerr w @ report ctx (uncaught_exceptions w)
                      # replicate (Suc (length junk)) menu,
             cin := rest\<rparr>))
   \<and> (list_all (\<lambda>r. accepted r = None) (cin w) \<longrightarrow>
      fst (HandleInteractive ctx latch w) = (Hangs, latch))"
proof -
  have "command ''I'' = Some Continue \<and> command ''i'' = Some Continue
      \<and> command ''F'' = Some Suppressed \<and> command ''f'' = Some Suppressed
      \<and> command ''D'' = Some Break \<and> command ''d'' = Some Break
      \<and> command ''T'' = Some Escalate \<and> command ''t'' = Some Escalate
      \<and> command ''B'' = Some Abort \<and> command ''b'' = Some Abort"
    by (simp add: command_def)
  moreover have "accepted None = None \<and> accepted (Some token) = command token"
    by (simp add: accepted_def)
  ultimately show ?thesis
    using command_alphabet [of token] HandleInteractive_first_command
      HandleInteractive_no_command
    by blast
qed

text \<open>
  A token that is no command, a failed read and a word that starts with a command letter
  are passed over; \<open>F\<close> then resolves to Suppressed and sets the latch, and the next token
  is left unread.
\<close>

theorem interactive_protocol_commands_witness:
  "list_all (\<lambda>r. accepted r = None) [Some ''x'', None, Some ''Ignore'']
   \<and> accepted (Some ''F'') = Some Suppressed
   \<and> HandleInteractive (context_at site_A Debug ''bad value 5'') False
       (terminal [Some ''x'', None, Some ''Ignore'', Some ''F'', Some ''i''])
     = ((Normal Suppressed, True),
        \<lparr>user = 0, cerr = [report_at site_A Debug ''bad value 5'', menu, menu, menu, menu],
         cin = [Some ''i''], uncaught_exceptions = 0\<rparr>)"
proof -
  have h1: "list_all (\<lambda>r. accepted r = None) [Some ''x'', None, Some ''Ignore'']"
    by (simp add: accepted_def command_def)
  have h2: "accepted (Some ''F'') = Some Suppressed"
    by (simp add: accepted_def command_def)
  have h3: "cin (terminal [Some ''x'', None, Some ''Ignore'', Some ''F'', Some ''i''])
      = [Some ''x'', None, Some ''Ignore''] @ Some ''F'' # [Some ''i'']"
    by (simp add: terminal_def)
  show ?thesis
    using h1 h2 h3 interactive_protocol_commands
      [where junk = "[Some ''x'', None, Some ''Ignore'']" and r = "Some ''F''"
         and res = Suppressed and rest = "[Some ''i'']" and latch = False
         and ctx = "context_at site_A Debug ''bad value 5''"
         and w = "terminal [Some ''x'', None, Some ''Ignore'', Some ''F'', Some ''i'']"]
    by (simp add: terminal_def report_at_def)
qed

section \<open>The default executor at an Error check\<close>

text \<open>
  C6. A failing Error check of a release build, with Error enabled and the default
  executor installed: HandleError writes the report line, which starts with \<open>[ERROR]\<close>
  and ends with the formatted message, and the check leaves as the assertion exception
  that carries exactly that message.
\<close>

theorem error_check_escalates_with_reported_message:
  assumes "enabled Error"
    and "expression (world s) = (Normal False, w2)"
    and "format w2 = (Normal message, w3)"
  shows "ASSERT_ERROR False (default_env enabled) site expression format s
     = (Threw (CAssertException message),
        s\<lparr>world := w3\<lparr>cerr := cerr w3 @
           [''[ERROR] Uncaught: '' @ decimal (uncaught_exceptions w3)
            @ '', File: '' @ file_name site @ '', Function: '' @ function_name site
            @ '', Line: '' @ decimal (line_no site)
            @ '', Expression: '' @ [CHR 0x22] @ expression_text site @ [CHR 0x22]
            @ '', Message: '' @ message]\<rparr>\<rparr>)"
proof -
  have g: "IsActiveAssert (default_env enabled) Error (world s) = (Normal True, world s)"
    using assms(1) by (simp add: default_env_def ret_def)
  have h: "HandleAssert (default_env enabled) Error message (expression_text site)
      (file_name site) (line_no site) (function_name site) w3
      = (Threw (CAssertException message),
         w3\<lparr>cerr := cerr w3 @
           [''[ERROR] Uncaught: '' @ decimal (uncaught_exceptions w3)
            @ '', File: '' @ file_name site @ '', Function: '' @ function_name site
            @ '', Line: '' @ decimal (line_no site)
            @ '', Expression: '' @ [CHR 0x22] @ expression_text site @ [CHR 0x22]
            @ '', Message: '' @ message]\<rparr>)"
    by (simp add: default_env_def dispatch_def HandleError_def write_report_def report_def)
  show ?thesis
    using release_failing
      [where expression = expression and format = format and s = s,
       OF g assms(2) assms(3) h]
    by (simp add: ASSERT_ERROR_def)
qed

text \<open>
  The spec's example: \<open>2 < 1\<close> fails, the message is \<open>bad value 5\<close>.
\<close>

theorem error_check_escalates_with_reported_message_witness:
  "default_levels False Error
   \<and> ASSERT_ERROR False (default_env (default_levels False)) site_A
       (on_user (plain (2 < (1::nat)))) (on_user (constant_message ''bad value 5''))
       (initial_state (terminal []))
     = (Threw (CAssertException ''bad value 5''),
        \<lparr>world = \<lparr>user = 0,
            cerr = [''[ERROR] Uncaught: 0, File: main.cpp, Function: main, Line: 42, Expression: ''
                    @ [CHR 0x22] @ ''2 < 1'' @ [CHR 0x22] @ '', Message: bad value 5''],
            cin = [], uncaught_exceptions = 0\<rparr>,
         ignore = (\<lambda>_. False), breaks = []\<rparr>)"
proof -
  have h1: "default_levels False Error" by simp
  have h2: "on_user (plain (2 < (1::nat))) (world (initial_state (terminal [])))
      = (Normal False, terminal [])"
    by (simp add: on_user_def plain_def initial_state_def terminal_def)
  have h3: "on_user (constant_message ''bad value 5'') (terminal [])
      = (Normal ''bad value 5'', terminal [])"
    by (simp add: on_user_def constant_message_def terminal_def)
  show ?thesis
    using h1 error_check_escalates_with_reported_message
      [where expression = "on_user (plain (2 < (1::nat)))"
         and format = "on_user (constant_message ''bad value 5'')" and site = site_A
         and enabled = "default_levels False",
       OF h1 h2 h3]
    by (simp add: initial_state_def terminal_def site_A_def decimal.simps digit_char_def)
qed

section \<open>The ignore latch\<close>

lemma debug_other_sites:
  "IMPL_DBGH_ASSERT_DEBUG env level site expression format s = (r, s') \<Longrightarrow>
   j \<noteq> site_id site \<Longrightarrow> ignore s' j = ignore s j"
  by (auto simp: IMPL_DBGH_ASSERT_DEBUG_def andThen_def on_world_def ret_def statement_def
      try_catch_debug_def call_with_ignore_def START_DEBUGGING_def
      split: if_splits prod.splits outcome.splits option.splits)

text \<open>
  Whatever the handler is, the latch of a site goes from false to true only in a failing
  check at that site, where the handler call sets the \<^verbatim>\<open>__ignore\<close> it was given.
\<close>

lemma debug_latch_set_by_handler:
  assumes "\<not> ignore s (site_id site)"
    and "IMPL_DBGH_ASSERT_DEBUG env level site expression format s = (r, s')"
    and "ignore s' (site_id site)"
  shows "\<exists>w1 w2 message w3 ro w4.
           IsActiveAssert env level (world s) = (Normal True, w1)
           \<and> expression w1 = (Normal False, w2)
           \<and> format w2 = (Normal message, w3)
           \<and> HandleAssertIgnore env level message (expression_text site) (file_name site)
                (line_no site) (function_name site) False w3 = ((ro, True), w4)"
  using assms
  by (auto simp: IMPL_DBGH_ASSERT_DEBUG_def andThen_def on_world_def ret_def statement_def
      try_catch_debug_def call_with_ignore_def START_DEBUGGING_def
      split: if_splits prod.splits outcome.splits option.splits)

lemma dispatch_Debug_latch:
  assumes "dispatch Debug message expr file line func False w = ((ro, True), w')"
  shows "chosen (cin w) = Some Suppressed"
proof -
  let ?ctx = "\<lparr>ctx_level = Debug, ctx_file = file, ctx_function = func, ctx_line = line,
                ctx_expression = expr, ctx_message = message\<rparr>"
  obtain po pw where p: "Prompting (cin w) (write_report ?ctx w) = (po, pw)"
    by (cases "Prompting (cin w) (write_report ?ctx w)")
  have "po = Normal Suppressed"
    using assms p
    by (auto simp: dispatch_def HandleInteractive_def split: outcome.splits if_splits)
  then have "fst (Prompting (cin w) (write_report ?ctx w)) = Normal Suppressed"
    using p by simp
  then show ?thesis
    by (simp add: Prompting_chosen split: option.splits)
qed

lemma on_user_cin: "on_user m w = (r, w') \<Longrightarrow> cin w' = cin w"
  by (auto simp: on_user_def split: prod.splits)

lemma default_latch_set:
  assumes "\<not> ignore s (site_id site)"
    and "ASSERT_DEBUG (default_env enabled) site (on_user e) (on_user f) s = (r, s')"
    and "ignore s' (site_id site)"
  shows "chosen (cin (world s)) = Some Suppressed"
proof -
  obtain w1 w2 message w3 ro w4 where
    g: "IsActiveAssert (default_env enabled) Debug (world s) = (Normal True, w1)"
    and x: "on_user e w1 = (Normal False, w2)"
    and m: "on_user f w2 = (Normal message, w3)"
    and h: "HandleAssertIgnore (default_env enabled) Debug message (expression_text site)
              (file_name site) (line_no site) (function_name site) False w3 = ((ro, True), w4)"
    using debug_latch_set_by_handler [OF assms(1) assms(2) [unfolded ASSERT_DEBUG_def] assms(3)]
    by blast
  have "w1 = world s" using g by (simp add: default_env_def ret_def)
  then have "cin w3 = cin (world s)"
    using on_user_cin [OF x] on_user_cin [OF m] by simp
  moreover have "chosen (cin w3) = Some Suppressed"
    using h dispatch_Debug_latch by (simp add: default_env_def)
  ultimately show ?thesis by simp
qed

text \<open>
  C5. Every site of the Debug macro has one latch, false in the start state. A check at
  a site leaves the latch of every other site as it was; a latch that is set stays set;
  and with the default executor the latch of the site goes from false to true only when
  the command that resolves this check is the ignore-forever command.
\<close>

theorem ignore_latch_discipline:
  assumes "ASSERT_DEBUG (default_env enabled) site (on_user e) (on_user f) s = (r, s')"
  shows "\<not> ignore (initial_state w0) (site_id site)
       \<and> (\<forall>j. j \<noteq> site_id site \<longrightarrow> ignore s' j = ignore s j)
       \<and> (ignore s (site_id site) \<longrightarrow> ignore s' (site_id site))
       \<and> (\<not> ignore s (site_id site) \<and> ignore s' (site_id site) \<longrightarrow>
            chosen (cin (world s)) = Some Suppressed)"
proof -
  have "\<not> ignore (initial_state w0) (site_id site)"
    by (simp add: initial_state_def)
  moreover have "\<forall>j. j \<noteq> site_id site \<longrightarrow> ignore s' j = ignore s j"
    using assms debug_other_sites unfolding ASSERT_DEBUG_def by blast
  moreover have "ignore s (site_id site) \<longrightarrow> ignore s' (site_id site)"
    using assms debug_latched [of s site "default_env enabled" Debug "on_user e" "on_user f"]
    unfolding ASSERT_DEBUG_def by auto
  moreover have "\<not> ignore s (site_id site) \<and> ignore s' (site_id site) \<longrightarrow>
      chosen (cin (world s)) = Some Suppressed"
    using assms default_latch_set by blast
  ultimately show ?thesis by blast
qed

text \<open>
  Two sites that both fail. The check at A is answered with \<open>f\<close>: the latch of A is set.
  The next check at A does nothing, it does not even evaluate its expression; the check
  at B still evaluates, reports and prompts, and reads the next token.
\<close>

theorem ignore_latch_discipline_witness:
  "ASSERT_DEBUG (default_env (default_levels True)) site_A (on_user (counting False))
       (on_user (constant_message ''bad value 5''))
       (initial_state (terminal [Some ''f'', Some ''i'']))
     = (Normal (), silenced_A)
   \<and> chosen [Some ''f'', Some ''i''] = Some Suppressed
   \<and> ASSERT_DEBUG (default_env (default_levels True)) site_A (on_user (counting False))
       (on_user (constant_message ''bad value 5'')) silenced_A
     = (Normal (), silenced_A)
   \<and> ASSERT_DEBUG (default_env (default_levels True)) site_B (on_user (counting False))
       (on_user (constant_message ''bad value 5'')) silenced_A
     = (Normal (),
        \<lparr>world = \<lparr>user = 2, cerr = [report_at site_A Debug ''bad value 5'', menu,
                                      report_at site_B Debug ''bad value 5'', menu],
                    cin = [], uncaught_exceptions = 0\<rparr>,
         ignore = (\<lambda>_. False)(0 := True), breaks = []\<rparr>)"
proof -
  have first: "ASSERT_DEBUG (default_env (default_levels True)) site_A
      (on_user (counting False)) (on_user (constant_message ''bad value 5''))
      (initial_state (terminal [Some ''f'', Some ''i''])) = (Normal (), silenced_A)"
    by (simp add: ASSERT_DEBUG_def IMPL_DBGH_ASSERT_DEBUG_def default_env_def initial_state_def
        terminal_def on_user_def counting_def constant_message_def andThen_def on_world_def
        ret_def statement_def try_catch_debug_def call_with_ignore_def dispatch_def HandleInteractive_def
        write_report_def accepted_def command_def report_at_def context_at_def site_A_def silenced_A_def)
  have again: "ASSERT_DEBUG (default_env (default_levels True)) site_A
      (on_user (counting False)) (on_user (constant_message ''bad value 5'')) silenced_A
      = (Normal (), silenced_A)"
    by (simp add: ASSERT_DEBUG_def IMPL_DBGH_ASSERT_DEBUG_def site_A_def silenced_A_def)
  have other: "ASSERT_DEBUG (default_env (default_levels True)) site_B
      (on_user (counting False)) (on_user (constant_message ''bad value 5'')) silenced_A
     = (Normal (),
        \<lparr>world = \<lparr>user = 2, cerr = [report_at site_A Debug ''bad value 5'', menu,
                                      report_at site_B Debug ''bad value 5'', menu],
                    cin = [], uncaught_exceptions = 0\<rparr>,
         ignore = (\<lambda>_. False)(0 := True), breaks = []\<rparr>)"
    by (simp add: ASSERT_DEBUG_def IMPL_DBGH_ASSERT_DEBUG_def default_env_def
        on_user_def counting_def constant_message_def andThen_def on_world_def
        ret_def statement_def try_catch_debug_def call_with_ignore_def dispatch_def HandleInteractive_def
        write_report_def accepted_def command_def report_at_def context_at_def site_B_def silenced_A_def
        fun_eq_iff)
  have "chosen [Some ''f'', Some ''i''] = Some Suppressed"
    using ignore_latch_discipline [OF first, of "terminal []"]
    by (simp add: initial_state_def terminal_def site_A_def silenced_A_def)
  then show ?thesis using first again other by simp
qed

section \<open>The debug switch\<close>

text \<open>
  C8. With \<^verbatim>\<open>DEBUG\<close> defined, \<^verbatim>\<open>ASSERT_WARNING\<close>, \<^verbatim>\<open>ASSERT_ERROR\<close> and \<^verbatim>\<open>ASSERT_FATAL\<close> are the
  same function of the expression, the message and the state as \<^verbatim>\<open>ASSERT_DEBUG\<close>: the
  Debug macro at level Debug, with its latch and its handler call. Without it they are the
  plain macro at their own level.
\<close>

theorem debug_switch_makes_all_asserts_debug:
  "ASSERT_WARNING True env = ASSERT_DEBUG env
   \<and> ASSERT_ERROR True env = ASSERT_DEBUG env
   \<and> ASSERT_FATAL True env = ASSERT_DEBUG env
   \<and> ASSERT_DEBUG env = IMPL_DBGH_ASSERT_DEBUG env Debug
   \<and> ASSERT_WARNING False env = IMPL_DBGH_ASSERT env Warning
   \<and> ASSERT_ERROR False env = IMPL_DBGH_ASSERT env Error
   \<and> ASSERT_FATAL False env = IMPL_DBGH_ASSERT env Fatal"
  by (simp add: ASSERT_WARNING_def ASSERT_ERROR_def ASSERT_FATAL_def ASSERT_DEBUG_def)

end
